theory Spec2Isabelle
  imports Complex_Main
begin

section \<open>The crypto price tracker: fetch, cache and summary pipeline of app.py\<close>

text \<open>
  The development embeds the two fetch functions of \<^verbatim>\<open>app.py\<close>
  (\<^verbatim>\<open>fetch_current_price\<close>, \<^verbatim>\<open>fetch_historical_prices\<close>) and the body of
  the statistical summary loop. The HTTP transport (\<^verbatim>\<open>requests.get\<close>) and the part
  of pandas and Python that is not pinned down below are parameters of the model. User
  notices
  (\<^verbatim>\<open>st.warning\<close>, \<^verbatim>\<open>st.error\<close>) are returned as a list next to the result,
  and a Python exception that leaves a function is the \<open>Inl\<close> branch of its result.
\<close>

subsection \<open>Values\<close>

text \<open>
  A number as Python's \<^verbatim>\<open>json\<close> module parses it: a literal without fraction and
  exponent is an \<^verbatim>\<open>int\<close> of any size, every other literal is a \<^verbatim>\<open>float\<close>. A
  float is its exact rational value, with \<open>PyFloat 0\<close> for \<^verbatim>\<open>0.0\<close> and \<open>NegZero\<close>
  for \<^verbatim>\<open>-0.0\<close>. Binary rounding, overflow of a float to infinity, underflow and the
  non-standard literals \<^verbatim>\<open>NaN\<close> and \<^verbatim>\<open>Infinity\<close> are outside the model.
\<close>

datatype number = PyInt int | PyFloat rat | NegZero

text \<open>
  A parsed JSON document. An object is its member list in document order; on a repeated
  key the last member wins, as in Python.
\<close>

datatype json =
    JNull
  | JBool bool
  | JNum number
  | JStr string
  | JArr "json list"
  | JObj "(string \<times> json) list"

datatype py_error =
    RequestException
  | JSONDecodeError
  | TypeError
  | KeyError
  | ZeroDivisionError
  | PandasError

datatype notice = Warning string | Error string

datatype param = PStr string | PInt int

record request =
  url :: string
  params :: "(string \<times> param) list"

text \<open>
  The response object of \<^verbatim>\<open>requests\<close>: its status code, and what
  \<^verbatim>\<open>response.json()\<close> gives: \<open>None\<close> when the body is not a JSON document
  (the call then raises \<^verbatim>\<open>JSONDecodeError\<close>).
\<close>

record response =
  status_code :: int
  json_body :: "json option"

type_synonym transport = "request \<Rightarrow> py_error + response"

text \<open>A point in time, in milliseconds since the Unix epoch.\<close>

datatype datetime = Datetime (epoch_ms: rat)

text \<open>
  The data frame with the columns \<^verbatim>\<open>date\<close> and \<^verbatim>\<open>price\<close>, row by row.
  \<^verbatim>\<open>pd.DataFrame()\<close> and a frame with columns and no rows are both \<open>[]\<close>;
  \<^verbatim>\<open>df.empty\<close> is \<open>df = []\<close>.
\<close>

type_synonym frame = "(datetime \<times> number) list"

text \<open>
  A float that a division or a product returns: a finite value (the sign of a zero
  result is not kept), an infinity or not-a-number.
\<close>

datatype npfloat = Finite rat | PosInf | NegInf | NaN

subsection \<open>Python helpers\<close>

definition BASE_URL :: string where
  "BASE_URL = ''https://api.coingecko.com/api/v3''"

definition digit_char :: "nat \<Rightarrow> char" where
  "digit_char d = char_of (48 + d)"

fun str_nat :: "nat \<Rightarrow> string" where
  "str_nat n = (if n < 10 then [digit_char n] else str_nat (n div 10) @ [digit_char (n mod 10)])"

declare str_nat.simps [simp del]

text \<open>\<^verbatim>\<open>str(i)\<close> of a Python integer, as an f-string formats it.\<close>

definition str_int :: "int \<Rightarrow> string" where
  "str_int i = (if i < 0 then CHR ''-'' # str_nat (nat (- i)) else str_nat (nat i))"

text \<open>\<^verbatim>\<open>response.json()\<close>.\<close>

definition response_json :: "response \<Rightarrow> py_error + json" where
  "response_json r = (case json_body r of None \<Rightarrow> Inl JSONDecodeError | Some d \<Rightarrow> Inr d)"

text \<open>Lookup in a parsed object: the last member with the key.\<close>

definition dict_get :: "(string \<times> json) list \<Rightarrow> string \<Rightarrow> json option" where
  "dict_get kvs k = map_of (rev kvs) k"

fun starts_with :: "string \<Rightarrow> string \<Rightarrow> bool" where
  "starts_with [] s = True"
| "starts_with (p # ps) [] = False"
| "starts_with (p # ps) (c # cs) = (p = c \<and> starts_with ps cs)"

fun has_substring :: "string \<Rightarrow> string \<Rightarrow> bool" where
  "has_substring p [] = (p = [])"
| "has_substring p (c # cs) = (starts_with p (c # cs) \<or> has_substring p cs)"

text \<open>
  \<^verbatim>\<open>key in data\<close> for a string key: key membership in a dict, element membership in
  a list, substring test in a string, and \<^verbatim>\<open>TypeError\<close> for a number, a boolean or
  \<^verbatim>\<open>None\<close>, which are not containers.
\<close>

fun py_in :: "string \<Rightarrow> json \<Rightarrow> py_error + bool" where
  "py_in k (JObj kvs) = Inr (dict_get kvs k \<noteq> None)"
| "py_in k (JArr vs) = Inr (List.member vs (JStr k))"
| "py_in k (JStr s) = Inr (has_substring k s)"
| "py_in k _ = Inl TypeError"

text \<open>
  \<^verbatim>\<open>data[key]\<close> for a string key: the value in a dict (\<^verbatim>\<open>KeyError\<close> when it is
  missing), \<^verbatim>\<open>TypeError\<close> for everything else (a list and a string take integer
  indices only).
\<close>

fun py_getitem :: "json \<Rightarrow> string \<Rightarrow> py_error + json" where
  "py_getitem (JObj kvs) k = (case dict_get kvs k of None \<Rightarrow> Inl KeyError | Some v \<Rightarrow> Inr v)"
| "py_getitem _ k = Inl TypeError"

subsection \<open>The data frame of a price list\<close>

text \<open>The numeric value of a number.\<close>

fun num_val :: "number \<Rightarrow> rat" where
  "num_val (PyInt i) = of_int i"
| "num_val (PyFloat q) = q"
| "num_val NegZero = 0"

fun is_float :: "number \<Rightarrow> bool" where
  "is_float (PyInt i) = False"
| "is_float (PyFloat q) = True"
| "is_float NegZero = True"

text \<open>The Python integers among the values of a column, in order.\<close>

fun ints_of :: "number list \<Rightarrow> int list" where
  "ints_of [] = []"
| "ints_of (PyInt i # ps) = i # ints_of ps"
| "ints_of (PyFloat q # ps) = ints_of ps"
| "ints_of (NegZero # ps) = ints_of ps"

text \<open>
  Columns whose integers are small enough that each of them, and every sum or
  difference of them, surely converts to a float (a Python integer of about 1.8e308 or
  more raises \<^verbatim>\<open>OverflowError\<close> when it is converted).
\<close>

definition float_safe :: "number list \<Rightarrow> bool" where
  "float_safe ps = (sum_list (map abs (ints_of ps)) \<le> 2 ^ 1000)"

fun number_pair :: "json \<Rightarrow> (number \<times> number) option" where
  "number_pair (JArr [JNum t, JNum p]) = Some (t, p)"
| "number_pair _ = None"

text \<open>The rows of a JSON list of \<^verbatim>\<open>[number, number]\<close> pairs, \<open>None\<close> for any other value.\<close>

fun number_pairs :: "json \<Rightarrow> (number \<times> number) list option" where
  "number_pairs (JArr rows) = those (map number_pair rows)"
| "number_pairs _ = None"

text \<open>
  Millisecond counts whose nanosecond value surely fits the 64-bit range of a pandas
  timestamp (beyond it \<^verbatim>\<open>pd.to_datetime\<close> raises).
\<close>

definition in_datetime_range :: "rat \<Rightarrow> bool" where
  "in_datetime_range t = (\<bar>t\<bar> \<le> 9223372036854)"

text \<open>\<^verbatim>\<open>pd.to_datetime(t, unit="ms")\<close> on one in-range number.\<close>

definition to_datetime_ms :: "number \<Rightarrow> datetime" where
  "to_datetime_ms t = Datetime (num_val t)"

text \<open>The rows that the model turns into a frame.\<close>

definition modelled_rows :: "(number \<times> number) list \<Rightarrow> bool" where
  "modelled_rows rows =
     (list_all (\<lambda>(t, p). in_datetime_range (num_val t)) rows \<and> float_safe (map snd rows))"

text \<open>
  The three pandas lines of \<^verbatim>\<open>fetch_historical_prices\<close>:
  \<^verbatim>\<open>pd.DataFrame(v, columns=["timestamp", "price"])\<close>, the conversion of the
  timestamp column and the selection of \<^verbatim>\<open>["date", "price"]\<close>. On a list of number
  pairs with in-range timestamps and float-safe prices this is one row per pair, in the
  order of the list, each price as it was parsed (the type that pandas gives the price
  column is a function of these values, \<open>to_column\<close> below). What pandas does with any
  other value is the parameter \<open>pandas\<close>.
\<close>

definition prices_frame :: "(json \<Rightarrow> py_error + frame) \<Rightarrow> json \<Rightarrow> py_error + frame" where
  "prices_frame pandas v =
     (case number_pairs v of
        None \<Rightarrow> pandas v
      | Some rows \<Rightarrow>
          if modelled_rows rows
          then Inr (map (\<lambda>(t, p). (to_datetime_ms t, p)) rows)
          else pandas v)"

subsection \<open>The fetch functions\<close>

definition rate_limit_message :: string where
  "rate_limit_message = ''Rate limit exceeded. Please try again later.''"

definition price_request :: "string \<Rightarrow> string \<Rightarrow> request" where
  "price_request coin_id currency =
     \<lparr>url = BASE_URL @ ''/simple/price'',
      params = [(''ids'', PStr coin_id), (''vs_currencies'', PStr currency),
                (''include_market_cap'', PStr ''true''),
                (''include_24hr_change'', PStr ''true'')]\<rparr>"

definition history_request :: "string \<Rightarrow> string \<Rightarrow> int \<Rightarrow> request" where
  "history_request coin_id currency days =
     \<lparr>url = BASE_URL @ ''/coins/'' @ coin_id @ ''/market_chart'',
      params = [(''vs_currency'', PStr currency), (''days'', PInt days)]\<rparr>"

text \<open>
  \<^verbatim>\<open>fetch_current_price(coin_id, currency)\<close>, the body under the cache decorator:
  the notices it emits and what it returns or raises.
\<close>

definition fetch_current_price ::
  "transport \<Rightarrow> string \<Rightarrow> string \<Rightarrow> notice list \<times> (py_error + json)" where
  "fetch_current_price get coin_id currency =
     (case get (price_request coin_id currency) of
        Inl e \<Rightarrow> ([], Inl e)
      | Inr response \<Rightarrow>
          if status_code response = 200 then ([], response_json response)
          else if status_code response = 429 then ([Warning rate_limit_message], Inr (JObj []))
          else ([Error (''Error fetching current price: '' @ str_int (status_code response))],
                Inr (JObj [])))"

text \<open>\<^verbatim>\<open>fetch_historical_prices(coin_id, currency, days)\<close>, likewise.\<close>

definition fetch_historical_prices ::
  "(json \<Rightarrow> py_error + frame) \<Rightarrow> transport \<Rightarrow> string \<Rightarrow> string \<Rightarrow> int
     \<Rightarrow> notice list \<times> (py_error + frame)" where
  "fetch_historical_prices pandas get coin_id currency days =
     (case get (history_request coin_id currency days) of
        Inl e \<Rightarrow> ([], Inl e)
      | Inr response \<Rightarrow>
          if status_code response = 200 then
            (case response_json response of
               Inl e \<Rightarrow> ([], Inl e)
             | Inr data \<Rightarrow>
                 (case py_in ''prices'' data of
                    Inl e \<Rightarrow> ([], Inl e)
                  | Inr True \<Rightarrow>
                      (case py_getitem data ''prices'' of
                         Inl e \<Rightarrow> ([], Inl e)
                       | Inr v \<Rightarrow> ([], prices_frame pandas v))
                  | Inr False \<Rightarrow> ([], Inr [])))
          else if status_code response = 429 then ([Warning rate_limit_message], Inr [])
          else ([Error (''Error fetching historical data: '' @ str_int (status_code response))],
                Inr []))"

subsection \<open>The statistical summary\<close>

definition INT64_MIN :: int where
  "INT64_MIN = - (2 ^ 63)"

definition INT64_MAX :: int where
  "INT64_MAX = 2 ^ 63 - 1"

definition UINT64_MAX :: int where
  "UINT64_MAX = 2 ^ 64 - 1"

text \<open>
  The price column as pandas types it when it builds the frame from a list of rows
  (\<^verbatim>\<open>maybe_convert_objects\<close>): 64-bit signed integers, 64-bit unsigned integers,
  floats, or the Python objects themselves.
\<close>

datatype column =
    Int64 "int list"
  | UInt64 "int list"
  | Float64 "number list"
  | Object "number list"

fun to_float :: "number \<Rightarrow> number" where
  "to_float (PyInt i) = PyFloat (of_int i)"
| "to_float (PyFloat q) = PyFloat q"
| "to_float NegZero = NegZero"

text \<open>
  The column stays a column of Python objects when an integer lies outside
  \<open>[INT64_MIN, UINT64_MAX]\<close>, or when one integer is above \<open>INT64_MAX\<close> and another
  is negative. Otherwise one float makes it a float column, one integer above
  \<open>INT64_MAX\<close> an unsigned column, and else it is a signed column.
\<close>

definition to_column :: "number list \<Rightarrow> column" where
  "to_column ps =
     (if list_ex (\<lambda>i. i < INT64_MIN \<or> UINT64_MAX < i) (ints_of ps)
         \<or> (list_ex (\<lambda>i. INT64_MAX < i) (ints_of ps) \<and> list_ex (\<lambda>i. i < 0) (ints_of ps))
      then Object ps
      else if list_ex is_float ps then Float64 (map to_float ps)
      else if list_ex (\<lambda>i. INT64_MAX < i) (ints_of ps) then UInt64 (ints_of ps)
      else Int64 (ints_of ps))"




fun is_object :: "column \<Rightarrow> bool" where
  "is_object (Int64 xs) = False"
| "is_object (UInt64 xs) = False"
| "is_object (Float64 xs) = False"
| "is_object (Object xs) = True"

text \<open>Subtraction of numpy 64-bit integers wraps around (with a runtime warning).\<close>

definition wrap_int64 :: "int \<Rightarrow> int" where
  "wrap_int64 x = (x + 2 ^ 63) mod 2 ^ 64 - 2 ^ 63"

definition wrap_uint64 :: "int \<Rightarrow> int" where
  "wrap_uint64 x = x mod 2 ^ 64"

text \<open>
  \<^verbatim>\<open>a / b\<close> on numpy scalars, which is a division of floats: \<open>a\<close> is the value of
  the dividend, \<open>b\<close> the divisor. numpy does not raise on a zero divisor (it warns): the
  quotient is an infinity, of the sign of the dividend for the divisor \<^verbatim>\<open>0.0\<close> (which
  an integer 0 becomes) and of the opposite sign for \<^verbatim>\<open>-0.0\<close>, and not-a-number for
  a zero dividend.
\<close>

definition np_div :: "rat \<Rightarrow> number \<Rightarrow> npfloat" where
  "np_div a b =
     (if num_val b \<noteq> 0 then Finite (a / num_val b)
      else if a = 0 then NaN
      else if (0 < a) = (b = NegZero) then NegInf
      else PosInf)"

text \<open>
  \<^verbatim>\<open>a / b\<close> on Python objects (integers and floats): a zero divisor, of either sign,
  raises \<^verbatim>\<open>ZeroDivisionError\<close>.
\<close>

definition py_truediv :: "rat \<Rightarrow> number \<Rightarrow> py_error + npfloat" where
  "py_truediv a b = (if num_val b = 0 then Inl ZeroDivisionError else Inr (Finite (a / num_val b)))"

fun np_mul :: "npfloat \<Rightarrow> rat \<Rightarrow> npfloat" where
  "np_mul (Finite a) c = Finite (a * c)"
| "np_mul PosInf c = (if 0 < c then PosInf else if c < 0 then NegInf else NaN)"
| "np_mul NegInf c = (if 0 < c then NegInf else if c < 0 then PosInf else NaN)"
| "np_mul NaN c = NaN"

text \<open>
  Line 119 on a non-empty column,
  \<^verbatim>\<open>(df["price"].iloc[-1] - df["price"].iloc[0]) / df["price"].iloc[0] * 100\<close>:
  the difference of the last and the first price in the arithmetic of the column, divided
  by the first price, times 100.
\<close>

fun price_change_of :: "column \<Rightarrow> py_error + npfloat" where
  "price_change_of (Int64 xs) =
     Inr (np_mul (np_div (of_int (wrap_int64 (last xs - hd xs))) (PyInt (hd xs))) 100)"
| "price_change_of (UInt64 xs) =
     Inr (np_mul (np_div (of_int (wrap_uint64 (last xs - hd xs))) (PyInt (hd xs))) 100)"
| "price_change_of (Float64 xs) =
     Inr (np_mul (np_div (num_val (last xs) - num_val (hd xs)) (hd xs)) 100)"
| "price_change_of (Object xs) =
     (case py_truediv (num_val (last xs) - num_val (hd xs)) (hd xs) of
        Inl e \<Rightarrow> Inl e
      | Inr q \<Rightarrow> Inr (np_mul q 100))"

text \<open>
  Lines 118 and 119 on a non-empty column: the mean, which pandas sums as floats, and
  the change. On a column of Python objects that is not float-safe both are left to the
  parameter \<open>big\<close>.
\<close>

definition mean_and_change ::
  "(number list \<Rightarrow> py_error + rat \<times> npfloat) \<Rightarrow> number list \<Rightarrow> py_error + rat \<times> npfloat" where
  "mean_and_change big ps =
     (if is_object (to_column ps) \<and> \<not> float_safe ps then big ps
      else (case price_change_of (to_column ps) of
              Inl e \<Rightarrow> Inl e
            | Inr change \<Rightarrow> Inr (sum_list (map num_val ps) / of_nat (length ps), change)))"

definition to_upper :: "char \<Rightarrow> char" where
  "to_upper c = (if 97 \<le> (of_char c :: nat) \<and> (of_char c :: nat) \<le> 122
                 then char_of ((of_char c :: nat) - 32) else c)"

definition to_lower :: "char \<Rightarrow> char" where
  "to_lower c = (if 65 \<le> (of_char c :: nat) \<and> (of_char c :: nat) \<le> 90
                 then char_of ((of_char c :: nat) + 32) else c)"

definition is_cased :: "char \<Rightarrow> bool" where
  "is_cased c = ((65 \<le> (of_char c :: nat) \<and> (of_char c :: nat) \<le> 90)
                 \<or> (97 \<le> (of_char c :: nat) \<and> (of_char c :: nat) \<le> 122))"

text \<open>
  \<^verbatim>\<open>str.title()\<close> on ASCII text (the coin identifiers of the sidebar are ASCII): a
  letter that follows a letter is lowered, any other letter is raised.
\<close>

fun title_from :: "bool \<Rightarrow> string \<Rightarrow> string" where
  "title_from previous_is_cased [] = []"
| "title_from previous_is_cased (c # cs) =
     (if previous_is_cased then to_lower c else to_upper c) # title_from (is_cased c) cs"

definition title :: "string \<Rightarrow> string" where
  "title s = title_from False s"

text \<open>One row of \<^verbatim>\<open>summary_data\<close>.\<close>

record summary_row =
  coin_label :: string
  max_price :: rat
  min_price :: rat
  avg_price :: rat
  price_change :: npfloat

text \<open>
  The body of the summary loop for one coin and its frame: no row for an empty frame,
  else maximum and minimum of the price column (lines 116 and 117, by comparison of the
  values), its mean and the change from the first row (\<^verbatim>\<open>iloc[0]\<close>) to the last
  (\<^verbatim>\<open>iloc[-1]\<close>) in percent. An exception of line 118 or 119 leaves the loop.
\<close>

definition summarize ::
  "(number list \<Rightarrow> py_error + rat \<times> npfloat) \<Rightarrow> string \<Rightarrow> frame
     \<Rightarrow> py_error + summary_row option" where
  "summarize big coin df =
     (case map snd df of
        [] \<Rightarrow> Inr None
      | p # ps \<Rightarrow>
          (case mean_and_change big (p # ps) of
             Inl e \<Rightarrow> Inl e
           | Inr (mean, change) \<Rightarrow>
               Inr (Some \<lparr>coin_label = title coin,
                          max_price = fold max (map num_val ps) (num_val p),
                          min_price = fold min (map num_val ps) (num_val p),
                          avg_price = mean,
                          price_change = change\<rparr>)))"

text \<open>
  The loop over the selected coins, given the frame fetched for each: the rows appended
  to \<^verbatim>\<open>summary_data\<close>, in order, or the exception that ends the script.
\<close>

fun summary_data ::
  "(number list \<Rightarrow> py_error + rat \<times> npfloat) \<Rightarrow> (string \<times> frame) list
     \<Rightarrow> py_error + summary_row list" where
  "summary_data big [] = Inr []"
| "summary_data big ((coin, df) # rest) =
     (case summarize big coin df of
        Inl e \<Rightarrow> Inl e
      | Inr None \<Rightarrow> summary_data big rest
      | Inr (Some row) \<Rightarrow>
          (case summary_data big rest of
             Inl e \<Rightarrow> Inl e
           | Inr rows \<Rightarrow> Inr (row # rows)))"

subsection \<open>Fixed transports and frames for concrete runs\<close>

text \<open>A transport that answers every request with the same response.\<close>

definition always :: "response \<Rightarrow> transport" where
  "always r req = Inr r"

text \<open>A pandas that rejects every value outside the modelled ones.\<close>

definition pandas_rejects :: "json \<Rightarrow> py_error + frame" where
  "pandas_rejects v = Inl PandasError"


definition ok_response :: "json \<Rightarrow> response" where
  "ok_response d = \<lparr>status_code = 200, json_body = Some d\<rparr>"

definition status_response :: "int \<Rightarrow> response" where
  "status_response s = \<lparr>status_code = s, json_body = None\<rparr>"

text \<open>The body \<^verbatim>\<open>{"prices": [[0, 100], [86400000, 110]]}\<close>.\<close>

definition two_point_body :: json where
  "two_point_body =
     JObj [(''prices'', JArr [JArr [JNum (PyInt 0), JNum (PyInt 100)],
                              JArr [JNum (PyInt 86400000), JNum (PyInt 110)]])]"

definition epoch :: datetime where
  "epoch = Datetime 0"

definition plus_days :: "datetime \<Rightarrow> rat \<Rightarrow> datetime" where
  "plus_days d n = Datetime (epoch_ms d + n * (24 * 60 * 60 * 1000))"


subsection \<open>The cache in front of the fetch functions\<close>










subsection \<open>Concrete series and runs\<close>

text \<open>
  The series of the two-point body, a series whose prices are not in order, and a series
  that starts at the price 0.
\<close>

definition two_point_series :: frame where
  "two_point_series = [(epoch, PyInt 100), (plus_days epoch 1, PyInt 110)]"










section \<open>Properties\<close>

subsection \<open>Helper facts\<close>

lemma dict_get_None: "dict_get kvs k = None \<longleftrightarrow> k \<notin> fst ` set kvs"
  by (simp add: dict_get_def map_of_eq_None_iff)

lemma those_length: "those xs = Some ys \<Longrightarrow> length ys = length xs"
  by (induction xs arbitrary: ys) (auto split: option.splits)

lemma number_pairs_length: "number_pairs (JArr js) = Some rows \<Longrightarrow> length rows = length js"
  using those_length [of "map number_pair js" rows] by simp

lemma str_int_500: "str_int 500 = ''500''"
  by code_simp


















lemma np_div_nonzero: "num_val b \<noteq> 0 \<Longrightarrow> np_div a b = Finite (a / num_val b)"
  by (simp add: np_div_def)




lemma history_ok_pairs:
  assumes "get (history_request coin_id currency days) = Inr h"
    and "status_code h = 200"
    and "json_body h = Some (JObj kvs)"
    and "dict_get kvs ''prices'' = Some v"
    and "number_pairs v = Some rows"
    and "modelled_rows rows"
  shows "fetch_historical_prices pandas get coin_id currency days
           = ([], Inr (map (\<lambda>(t, p). (Datetime (num_val t), p)) rows))"
  using assms
  by (simp add: fetch_historical_prices_def response_json_def prices_frame_def
      to_datetime_ms_def)

lemma history_no_prices:
  assumes "get (history_request coin_id currency days) = Inr h"
    and "status_code h = 200"
    and "json_body h = Some (JObj kvs)"
    and "dict_get kvs ''prices'' = None"
  shows "fetch_historical_prices pandas get coin_id currency days = ([], Inr [])"
  using assms by (simp add: fetch_historical_prices_def response_json_def)

lemma history_not_ok:
  assumes "get (history_request coin_id currency days) = Inr h"
    and "status_code h \<noteq> 200"
  shows "snd (fetch_historical_prices pandas get coin_id currency days) = Inr []"
  using assms by (simp add: fetch_historical_prices_def)

lemma history_body:
  assumes "get (history_request coin_id currency days) = Inr h"
    and "status_code h = 200"
    and "json_body h = Some d"
  shows "fetch_historical_prices pandas get coin_id currency days =
     (case py_in ''prices'' d of
        Inl e \<Rightarrow> ([], Inl e)
      | Inr True \<Rightarrow>
          (case py_getitem d ''prices'' of
             Inl e \<Rightarrow> ([], Inl e)
           | Inr v \<Rightarrow> ([], prices_frame pandas v))
      | Inr False \<Rightarrow> ([], Inr []))"
  using assms by (simp add: fetch_historical_prices_def response_json_def)

lemma two_point_fetch:
  "fetch_historical_prices pandas (always (ok_response two_point_body)) coin currency days
     = ([], Inr two_point_series)"
  by (simp add: fetch_historical_prices_def always_def ok_response_def two_point_body_def
      response_json_def dict_get_def prices_frame_def modelled_rows_def in_datetime_range_def
      float_safe_def to_datetime_ms_def two_point_series_def epoch_def plus_days_def)














subsection \<open>The summary\<close>

text \<open>
  C1: for the upstream history response \<^verbatim>\<open>{"prices": [[0, 100], [86400000, 110]]}\<close>
  with success status, the history fetch yields a two-point series, at the epoch and one
  day after it, with the prices 100 and 110 in that order, and the summary of that series
  has maximum 110, minimum 100, mean 105 and a change of 10 percent.
\<close>

theorem round_trip_two_points:
  "fetch_historical_prices pandas (always (ok_response two_point_body)) coin currency days
     = ([], Inr [(epoch, PyInt 100), (plus_days epoch 1, PyInt 110)])
   \<and> summarize big coin [(epoch, PyInt 100), (plus_days epoch 1, PyInt 110)]
     = Inr (Some \<lparr>coin_label = title coin, max_price = 110, min_price = 100, avg_price = 105,
                  price_change = Finite 10\<rparr>)"
proof
  show "fetch_historical_prices pandas (always (ok_response two_point_body)) coin currency days
     = ([], Inr [(epoch, PyInt 100), (plus_days epoch 1, PyInt 110)])"
    by (simp add: two_point_fetch two_point_series_def)
  have col: "to_column [PyInt 100, PyInt 110] = Int64 [100, 110]"
    by (simp add: to_column_def INT64_MIN_def INT64_MAX_def UINT64_MAX_def)
  show "summarize big coin [(epoch, PyInt 100), (plus_days epoch 1, PyInt 110)]
     = Inr (Some \<lparr>coin_label = title coin, max_price = 110, min_price = 100, avg_price = 105,
                  price_change = Finite 10\<rparr>)"
    by (simp add: summarize_def mean_and_change_def col wrap_int64_def np_div_def)
qed






text \<open>
  C8: an empty series gives no summary row; in particular the empty upstream body
  \<^verbatim>\<open>{}\<close> gives an empty series, and the summary loop appends nothing for it.
\<close>

theorem empty_series_no_row:
  "summarize big coin [] = Inr None
   \<and> summary_data big [(coin, [])] = Inr []
   \<and> fetch_historical_prices pandas (always (ok_response (JObj []))) coin currency days
       = ([], Inr [])"
  by (simp add: summarize_def fetch_historical_prices_def always_def ok_response_def
      response_json_def dict_get_def)




subsection \<open>The fetch functions\<close>

text \<open>
  C3: for every asset, currency and upstream response, a status of 429 makes the price
  fetch emit one warning, and no error notice, and return the empty mapping; any other
  status than 200 makes it emit one error notice and return the empty mapping. The
  history fetch follows the same taxonomy and returns the empty series in both cases.
\<close>

theorem status_taxonomy:
  assumes "get (price_request coin_id currency) = Inr r"
    and "get (history_request coin_id currency days) = Inr h"
  shows "(status_code r = 429 \<longrightarrow>
            fetch_current_price get coin_id currency
              = ([Warning rate_limit_message], Inr (JObj [])))
       \<and> (status_code r \<noteq> 200 \<and> status_code r \<noteq> 429 \<longrightarrow>
            fetch_current_price get coin_id currency
              = ([Error (''Error fetching current price: '' @ str_int (status_code r))],
                 Inr (JObj [])))
       \<and> (status_code h = 429 \<longrightarrow>
            fetch_historical_prices pandas get coin_id currency days
              = ([Warning rate_limit_message], Inr []))
       \<and> (status_code h \<noteq> 200 \<and> status_code h \<noteq> 429 \<longrightarrow>
            fetch_historical_prices pandas get coin_id currency days
              = ([Error (''Error fetching historical data: '' @ str_int (status_code h))],
                 Inr []))"
  using assms by (simp add: fetch_current_price_def fetch_historical_prices_def)

text \<open>The two statuses 429 and 500, each answered to both functions.\<close>

theorem status_taxonomy_witness:
  "always (status_response 429) (price_request ''bitcoin'' ''usd'') = Inr (status_response 429)
   \<and> always (status_response 429) (history_request ''bitcoin'' ''usd'' 7)
       = Inr (status_response 429)
   \<and> status_code (status_response 429) = 429
   \<and> fetch_current_price (always (status_response 429)) ''bitcoin'' ''usd''
       = ([Warning ''Rate limit exceeded. Please try again later.''], Inr (JObj []))
   \<and> fetch_historical_prices pandas_rejects (always (status_response 429)) ''bitcoin'' ''usd'' 7
       = ([Warning ''Rate limit exceeded. Please try again later.''], Inr [])
   \<and> always (status_response 500) (price_request ''bitcoin'' ''usd'') = Inr (status_response 500)
   \<and> always (status_response 500) (history_request ''bitcoin'' ''usd'' 7)
       = Inr (status_response 500)
   \<and> status_code (status_response 500) \<noteq> 200 \<and> status_code (status_response 500) \<noteq> 429
   \<and> fetch_current_price (always (status_response 500)) ''bitcoin'' ''usd''
       = ([Error ''Error fetching current price: 500''], Inr (JObj []))
   \<and> fetch_historical_prices pandas_rejects (always (status_response 500)) ''bitcoin'' ''usd'' 7
       = ([Error ''Error fetching historical data: 500''], Inr [])"
proof -
  have a: "always (status_response s) req = Inr (status_response s)" for s req
    by (simp add: always_def)
  have c: "status_code (status_response s) = s" for s
    by (simp add: status_response_def)
  show ?thesis
    using status_taxonomy
        [where get = "always (status_response 429)" and r = "status_response 429"
           and h = "status_response 429" and coin_id = "''bitcoin''" and currency = "''usd''"
           and days = 7 and pandas = pandas_rejects]
      status_taxonomy
        [where get = "always (status_response 500)" and r = "status_response 500"
           and h = "status_response 500" and coin_id = "''bitcoin''" and currency = "''usd''"
           and days = 7 and pandas = pandas_rejects]
    by (simp add: a c str_int_500 rate_limit_message_def)
qed

text \<open>
  C7, as stated, fails: under status 200 the JSON body \<^verbatim>\<open>null\<close> has no
  \<^verbatim>\<open>"prices"\<close> field, and \<^verbatim>\<open>"prices" in data\<close> raises \<^verbatim>\<open>TypeError\<close> on it
  instead of giving an empty series.
\<close>

theorem missing_prices_counterexample:
  "status_code (ok_response JNull) = 200
   \<and> json_body (ok_response JNull) = Some JNull
   \<and> fetch_historical_prices pandas_rejects (always (ok_response JNull)) ''bitcoin'' ''usd'' 7
       = ([], Inl TypeError)"
  by (simp add: fetch_historical_prices_def always_def ok_response_def response_json_def)

text \<open>
  C7, amended: for every response with success status whose JSON body is an object
  without a \<^verbatim>\<open>"prices"\<close> member, a list that does not hold the string
  \<^verbatim>\<open>"prices"\<close>, or a string that does not contain \<^verbatim>\<open>prices\<close>, the history fetch
  returns the empty series and emits no notice. When the body is \<^verbatim>\<open>null\<close>, a boolean
  or a number, it raises \<^verbatim>\<open>TypeError\<close> to the caller and emits no notice.
\<close>

theorem missing_prices_silent:
  assumes "get (history_request coin_id currency days) = Inr r"
    and "status_code r = 200"
    and "json_body r = Some d"
  shows "(d = JObj kvs \<and> ''prices'' \<notin> fst ` set kvs \<longrightarrow>
            fetch_historical_prices pandas get coin_id currency days = ([], Inr []))
       \<and> (d = JArr vs \<and> JStr ''prices'' \<notin> set vs \<longrightarrow>
            fetch_historical_prices pandas get coin_id currency days = ([], Inr []))
       \<and> (d = JStr s \<and> \<not> has_substring ''prices'' s \<longrightarrow>
            fetch_historical_prices pandas get coin_id currency days = ([], Inr []))
       \<and> (d = JNull \<or> d = JBool b \<or> d = JNum n \<longrightarrow>
            fetch_historical_prices pandas get coin_id currency days = ([], Inl TypeError))"
  unfolding history_body
    [where get = get and h = r and d = d and coin_id = coin_id and currency = currency
       and days = days, OF assms]
  by (auto simp: dict_get_None)

text \<open>
  The bodies \<^verbatim>\<open>{"error": "coin not found"}\<close>, \<^verbatim>\<open>[]\<close> and \<^verbatim>\<open>"down"\<close>, which
  give the empty series, and the body \<^verbatim>\<open>5\<close>, which raises.
\<close>

theorem missing_prices_silent_witness:
  "status_code (ok_response (JObj [(''error'', JStr ''coin not found'')])) = 200
   \<and> ''prices'' \<notin> fst ` set [(''error'', JStr ''coin not found'')]
   \<and> fetch_historical_prices pandas_rejects
        (always (ok_response (JObj [(''error'', JStr ''coin not found'')])))
        ''bitcoin'' ''usd'' 7 = ([], Inr [])
   \<and> JStr ''prices'' \<notin> set []
   \<and> fetch_historical_prices pandas_rejects (always (ok_response (JArr [])))
        ''bitcoin'' ''usd'' 7 = ([], Inr [])
   \<and> \<not> has_substring ''prices'' ''down''
   \<and> fetch_historical_prices pandas_rejects (always (ok_response (JStr ''down'')))
        ''bitcoin'' ''usd'' 7 = ([], Inr [])
   \<and> fetch_historical_prices pandas_rejects (always (ok_response (JNum (PyInt 5))))
        ''bitcoin'' ''usd'' 7 = ([], Inl TypeError)"
proof -
  have a: "always x req = Inr x" for x req
    by (simp add: always_def)
  have c: "status_code (ok_response x) = 200" and j: "json_body (ok_response x) = Some x" for x
    by (simp_all add: ok_response_def)
  show ?thesis
    using missing_prices_silent
        [where get = "always (ok_response (JObj [(''error'', JStr ''coin not found'')]))"
           and r = "ok_response (JObj [(''error'', JStr ''coin not found'')])"
           and d = "JObj [(''error'', JStr ''coin not found'')]"
           and kvs = "[(''error'', JStr ''coin not found'')]"
           and coin_id = "''bitcoin''" and currency = "''usd''" and days = 7
           and pandas = pandas_rejects]
      missing_prices_silent
        [where get = "always (ok_response (JArr []))" and r = "ok_response (JArr [])"
           and d = "JArr []" and vs = "[]"
           and coin_id = "''bitcoin''" and currency = "''usd''" and days = 7
           and pandas = pandas_rejects]
      missing_prices_silent
        [where get = "always (ok_response (JStr ''down''))"
           and r = "ok_response (JStr ''down'')"
           and d = "JStr ''down''" and s = "''down''"
           and coin_id = "''bitcoin''" and currency = "''usd''" and days = 7
           and pandas = pandas_rejects]
      missing_prices_silent
        [where get = "always (ok_response (JNum (PyInt 5)))"
           and r = "ok_response (JNum (PyInt 5))"
           and d = "JNum (PyInt 5)" and n = "PyInt 5"
           and coin_id = "''bitcoin''" and currency = "''usd''" and days = 7
           and pandas = pandas_rejects]
    by (simp add: a c j)
qed

text \<open>
  C6, as stated, fails: a response with status 200 whose body is not a JSON document
  makes \<^verbatim>\<open>response.json()\<close> raise, and neither function catches it.
\<close>

theorem fetch_never_raises_counterexample:
  "snd (fetch_current_price (always (status_response 200)) ''bitcoin'' ''usd'')
     = Inl JSONDecodeError
   \<and> snd (fetch_historical_prices pandas_rejects (always (status_response 200))
            ''bitcoin'' ''usd'' 7) = Inl JSONDecodeError"
  by (simp add: fetch_current_price_def fetch_historical_prices_def always_def
      status_response_def response_json_def)

text \<open>
  C6, amended: for every upstream response with a status other than 200, neither fetch
  function raises, and each returns its empty value. Under status 200 the price fetch
  returns the parsed body whenever the body is a JSON document, and the history fetch
  returns a series whenever the body is a JSON object that has no \<^verbatim>\<open>"prices"\<close>
  member or whose \<^verbatim>\<open>"prices"\<close> member is a list of number pairs with timestamps in
  range and float-safe prices. Under status 200 with a body that is not a JSON document
  both functions raise \<^verbatim>\<open>JSONDecodeError\<close> to the caller.
\<close>

theorem fetch_raises_on_unreadable_body:
  assumes "get (price_request coin_id currency) = Inr r"
    and "get (history_request coin_id currency days) = Inr h"
  shows "(status_code r \<noteq> 200 \<longrightarrow>
            snd (fetch_current_price get coin_id currency) = Inr (JObj []))
       \<and> (status_code r = 200 \<and> json_body r = Some d \<longrightarrow>
            fetch_current_price get coin_id currency = ([], Inr d))
       \<and> (status_code r = 200 \<and> json_body r = None \<longrightarrow>
            fetch_current_price get coin_id currency = ([], Inl JSONDecodeError))
       \<and> (status_code h \<noteq> 200 \<longrightarrow>
            snd (fetch_historical_prices pandas get coin_id currency days) = Inr [])
       \<and> (status_code h = 200 \<and> json_body h = Some (JObj kvs)
            \<and> dict_get kvs ''prices'' = None \<longrightarrow>
            fetch_historical_prices pandas get coin_id currency days = ([], Inr []))
       \<and> (status_code h = 200 \<and> json_body h = Some (JObj kvs)
            \<and> dict_get kvs ''prices'' = Some v \<and> number_pairs v = Some rows
            \<and> modelled_rows rows \<longrightarrow>
            (\<exists>df. fetch_historical_prices pandas get coin_id currency days = ([], Inr df)))
       \<and> (status_code h = 200 \<and> json_body h = None \<longrightarrow>
            fetch_historical_prices pandas get coin_id currency days
              = ([], Inl JSONDecodeError))"
proof (intro conjI impI)
  assume "status_code r \<noteq> 200"
  with assms(1) show "snd (fetch_current_price get coin_id currency) = Inr (JObj [])"
    by (simp add: fetch_current_price_def)
next
  assume "status_code r = 200 \<and> json_body r = Some d"
  with assms(1) show "fetch_current_price get coin_id currency = ([], Inr d)"
    by (simp add: fetch_current_price_def response_json_def)
next
  assume "status_code r = 200 \<and> json_body r = None"
  with assms(1) show "fetch_current_price get coin_id currency = ([], Inl JSONDecodeError)"
    by (simp add: fetch_current_price_def response_json_def)
next
  assume "status_code h \<noteq> 200"
  with assms(2) show "snd (fetch_historical_prices pandas get coin_id currency days) = Inr []"
    by (rule history_not_ok)
next
  assume "status_code h = 200 \<and> json_body h = Some (JObj kvs)
            \<and> dict_get kvs ''prices'' = None"
  with assms(2) show "fetch_historical_prices pandas get coin_id currency days = ([], Inr [])"
    by (simp add: history_no_prices)
next
  assume "status_code h = 200 \<and> json_body h = Some (JObj kvs)
            \<and> dict_get kvs ''prices'' = Some v \<and> number_pairs v = Some rows
            \<and> modelled_rows rows"
  with assms(2)
  have "fetch_historical_prices pandas get coin_id currency days
          = ([], Inr (map (\<lambda>(t, p). (Datetime (num_val t), p)) rows))"
    by (simp add: history_ok_pairs)
  then show "\<exists>df. fetch_historical_prices pandas get coin_id currency days = ([], Inr df)"
    by blast
next
  assume "status_code h = 200 \<and> json_body h = None"
  with assms(2)
  show "fetch_historical_prices pandas get coin_id currency days = ([], Inl JSONDecodeError)"
    by (simp add: fetch_historical_prices_def response_json_def)
qed

text \<open>
  The two-point body under status 200, where both functions return, and status 503,
  where both return their empty value.
\<close>

theorem fetch_raises_on_unreadable_body_witness:
  "always (ok_response two_point_body) (price_request ''bitcoin'' ''usd'')
     = Inr (ok_response two_point_body)
   \<and> always (ok_response two_point_body) (history_request ''bitcoin'' ''usd'' 7)
       = Inr (ok_response two_point_body)
   \<and> status_code (ok_response two_point_body) = 200
   \<and> json_body (ok_response two_point_body) = Some two_point_body
   \<and> fetch_current_price (always (ok_response two_point_body)) ''bitcoin'' ''usd''
       = ([], Inr two_point_body)
   \<and> always (status_response 503) (price_request ''bitcoin'' ''usd'')
       = Inr (status_response 503)
   \<and> always (status_response 503) (history_request ''bitcoin'' ''usd'' 7)
       = Inr (status_response 503)
   \<and> status_code (status_response 503) \<noteq> 200
   \<and> snd (fetch_current_price (always (status_response 503)) ''bitcoin'' ''usd'')
       = Inr (JObj [])
   \<and> snd (fetch_historical_prices pandas_rejects (always (status_response 503))
            ''bitcoin'' ''usd'' 7) = Inr []"
proof -
  have a: "always x req = Inr x" for x req
    by (simp add: always_def)
  show ?thesis
    using fetch_raises_on_unreadable_body
        [where get = "always (ok_response two_point_body)"
           and r = "ok_response two_point_body" and h = "ok_response two_point_body"
           and coin_id = "''bitcoin''" and currency = "''usd''" and days = 7
           and d = two_point_body and pandas = pandas_rejects]
      fetch_raises_on_unreadable_body
        [where get = "always (status_response 503)"
           and r = "status_response 503" and h = "status_response 503"
           and coin_id = "''bitcoin''" and currency = "''usd''" and days = 7
           and pandas = pandas_rejects]
    by (simp add: a ok_response_def status_response_def)
qed

text \<open>
  C9, as stated, fails: under status 200 the body \<^verbatim>\<open>{"prices": []}\<close> has the
  \<^verbatim>\<open>"prices"\<close> member, and the series returned for it is empty.
\<close>

theorem history_nonempty_counterexample:
  "status_code (ok_response (JObj [(''prices'', JArr [])])) = 200
   \<and> py_in ''prices'' (JObj [(''prices'', JArr [])]) = Inr True
   \<and> fetch_historical_prices pandas_rejects
       (always (ok_response (JObj [(''prices'', JArr [])]))) ''bitcoin'' ''usd'' 7
       = ([], Inr [])"
  by (simp add: fetch_historical_prices_def always_def ok_response_def response_json_def
      dict_get_def prices_frame_def modelled_rows_def float_safe_def)

text \<open>
  C9, amended: under status 200 and a JSON object body whose \<^verbatim>\<open>"prices"\<close> member
  is a list of number pairs with timestamps in range and float-safe prices, the history
  fetch returns one point per pair, with the timestamps and prices of the pairs in
  upstream order, so the series is non-empty exactly when the list is non-empty. Under
  any other status, and under status 200 with a JSON object body that has no
  \<^verbatim>\<open>"prices"\<close> member, the series is empty.
\<close>

theorem history_one_point_per_pair:
  assumes "get (history_request coin_id currency days) = Inr h"
  shows "(status_code h = 200 \<and> json_body h = Some (JObj kvs)
            \<and> dict_get kvs ''prices'' = Some (JArr js) \<and> number_pairs (JArr js) = Some rows
            \<and> modelled_rows rows \<longrightarrow>
            (\<exists>df. fetch_historical_prices pandas get coin_id currency days = ([], Inr df)
               \<and> length df = length js
               \<and> map (\<lambda>(d, p). (epoch_ms d, p)) df = map (\<lambda>(t, p). (num_val t, p)) rows
               \<and> (df \<noteq> [] \<longleftrightarrow> js \<noteq> [])))
       \<and> (status_code h \<noteq> 200
            \<or> (status_code h = 200 \<and> json_body h = Some (JObj kvs)
                 \<and> dict_get kvs ''prices'' = None) \<longrightarrow>
            snd (fetch_historical_prices pandas get coin_id currency days) = Inr [])"
proof (intro conjI impI)
  assume ok: "status_code h = 200 \<and> json_body h = Some (JObj kvs)
            \<and> dict_get kvs ''prices'' = Some (JArr js) \<and> number_pairs (JArr js) = Some rows
            \<and> modelled_rows rows"
  let ?df = "map (\<lambda>(t, p). (Datetime (num_val t), p)) rows"
  from ok assms have "fetch_historical_prices pandas get coin_id currency days = ([], Inr ?df)"
    by (simp add: history_ok_pairs)
  moreover from ok have len: "length rows = length js"
    by (simp add: number_pairs_length)
  then have "length ?df = length js"
    by simp
  moreover have "map (\<lambda>(d, p). (epoch_ms d, p)) ?df = map (\<lambda>(t, p). (num_val t, p)) rows"
    by (induction rows) auto
  moreover from len have "?df \<noteq> [] \<longleftrightarrow> js \<noteq> []"
    by auto
  ultimately show "\<exists>df. fetch_historical_prices pandas get coin_id currency days = ([], Inr df)
               \<and> length df = length js
               \<and> map (\<lambda>(d, p). (epoch_ms d, p)) df = map (\<lambda>(t, p). (num_val t, p)) rows
               \<and> (df \<noteq> [] \<longleftrightarrow> js \<noteq> [])"
    by blast
next
  assume "status_code h \<noteq> 200
            \<or> (status_code h = 200 \<and> json_body h = Some (JObj kvs)
                 \<and> dict_get kvs ''prices'' = None)"
  then show "snd (fetch_historical_prices pandas get coin_id currency days) = Inr []"
    using assms history_not_ok [of get coin_id currency days h pandas]
      history_no_prices [of get coin_id currency days h kvs pandas]
    by (cases "status_code h = 200") auto
qed

text \<open>The two-point body: two pairs, two points.\<close>

theorem history_one_point_per_pair_witness:
  "always (ok_response two_point_body) (history_request ''bitcoin'' ''usd'' 7)
     = Inr (ok_response two_point_body)
   \<and> status_code (ok_response two_point_body) = 200
   \<and> json_body (ok_response two_point_body)
       = Some (JObj [(''prices'', JArr [JArr [JNum (PyInt 0), JNum (PyInt 100)], JArr [JNum (PyInt 86400000), JNum (PyInt 110)]])])
   \<and> dict_get [(''prices'', JArr [JArr [JNum (PyInt 0), JNum (PyInt 100)], JArr [JNum (PyInt 86400000), JNum (PyInt 110)]])] ''prices''
       = Some (JArr [JArr [JNum (PyInt 0), JNum (PyInt 100)], JArr [JNum (PyInt 86400000), JNum (PyInt 110)]])
   \<and> number_pairs (JArr [JArr [JNum (PyInt 0), JNum (PyInt 100)], JArr [JNum (PyInt 86400000), JNum (PyInt 110)]])
       = Some [(PyInt 0, PyInt 100), (PyInt 86400000, PyInt 110)]
   \<and> modelled_rows [(PyInt 0, PyInt 100), (PyInt 86400000, PyInt 110)]
   \<and> (\<exists>df. fetch_historical_prices pandas_rejects (always (ok_response two_point_body))
               ''bitcoin'' ''usd'' 7 = ([], Inr df)
          \<and> length df = 2
          \<and> map (\<lambda>(d, p). (epoch_ms d, p)) df = [(0, PyInt 100), (86400000, PyInt 110)]
          \<and> df \<noteq> [])"
  using history_one_point_per_pair
    [where get = "always (ok_response two_point_body)" and h = "ok_response two_point_body"
       and coin_id = "''bitcoin''" and currency = "''usd''" and days = 7
       and kvs = "[(''prices'', JArr [JArr [JNum (PyInt 0), JNum (PyInt 100)], JArr [JNum (PyInt 86400000), JNum (PyInt 110)]])]"
       and js = "[JArr [JNum (PyInt 0), JNum (PyInt 100)], JArr [JNum (PyInt 86400000), JNum (PyInt 110)]]"
       and rows = "[(PyInt 0, PyInt 100), (PyInt 86400000, PyInt 110)]"
       and pandas = pandas_rejects]
  by (auto simp: always_def ok_response_def two_point_body_def dict_get_def
      modelled_rows_def in_datetime_range_def float_safe_def)

subsection \<open>The cache\<close>



end
